theory Spec2Isabelle
  imports Complex_Main "HOL-Library.Sublist" "HOL-Library.Monad_Syntax" "HOL-Library.Word"
begin

section \<open>Values shared by the server route and the client page\<close>

text \<open>
  Both files exchange JavaScript values that are serialised as JSON. An object literal is
  kept as the list of its properties in the order the source writes them.
\<close>

datatype json =
    JNull
  | JBool bool
  | JNumber real
  | JString string
  | JArray "json list"
  | JObject "(string \<times> json) list"

text \<open>Property read \<open>o.k\<close>: \<open>None\<close> stands for \<open>undefined\<close>.\<close>

fun field :: "string \<Rightarrow> json \<Rightarrow> json option" where
  "field k (JObject kvs) = map_of kvs k"
| "field k _ = None"

text \<open>
  A value that a \<open>throw\<close> carries: an instance of \<open>Error\<close> with its \<open>message\<close>, or any
  other value.
\<close>

datatype thrown = ErrorObj string | NonError

section \<open>The runtime's clock: \<open>new Date().toISOString()\<close>\<close>

text \<open>
  The handler stamps its answer with \<open>new Date().toISOString()\<close>. The repository has no
  code for it: it is the language's built-in, and the definitions below follow the
  ECMAScript standard (ECMA-262, "Time Values and Time Range", "Day Number and Time within
  Day", "Year Number", "Month Number", "Date Number", "Hours, Minutes, Second, and
  Milliseconds", and "Date.prototype.toISOString"). A time value is an integral number of
  milliseconds since 1970-01-01T00:00:00Z, and \<open>div\<close> and \<open>mod\<close> on \<open>int\<close> are the
  standard's floor and modulo.
\<close>

definition msPerDay :: int where
  "msPerDay = 86400000"

definition Day :: "int \<Rightarrow> int" where
  "Day t = t div msPerDay"

definition TimeWithinDay :: "int \<Rightarrow> int" where
  "TimeWithinDay t = t mod msPerDay"

definition DaysInYear :: "int \<Rightarrow> int" where
  "DaysInYear y =
     (if y mod 4 \<noteq> 0 then 365
      else if y mod 100 \<noteq> 0 then 366
      else if y mod 400 \<noteq> 0 then 365
      else 366)"

definition DayFromYear :: "int \<Rightarrow> int" where
  "DayFromYear y =
     365 * (y - 1970) + (y - 1969) div 4 - (y - 1901) div 100 + (y - 1601) div 400"

text \<open>
  The standard's \<open>YearFromTime(t)\<close> is the largest year whose first day is not after the
  day of \<open>t\<close>. It is computed here by walking up from a year that is not after it; that
  the walk ends needs the first days of the years to grow, which the next lemmas give.
\<close>

lemma div_succ:
  fixes x k :: int
  assumes "0 < k"
  shows "(x + 1) div k = x div k + (if (x + 1) mod k = 0 then 1 else 0)"
proof -
  define q where "q = x div k"
  define r where "r = x mod k"
  have x: "x = q * k + r" and r: "0 \<le> r" "r < k"
    using assms by (simp_all add: q_def r_def)
  show ?thesis
  proof (cases "r + 1 = k")
    case True
    then have "x + 1 = (q + 1) * k" using x by (simp add: algebra_simps)
    then show ?thesis using assms q_def by simp
  next
    case False
    then have r1: "0 \<le> r + 1" "r + 1 < k" using r by auto
    have e: "x + 1 = q * k + (r + 1)" using x by simp
    have "(x + 1) div k = q" unfolding e using r1 assms by (simp add: div_pos_pos_trivial)
    moreover have "(x + 1) mod k = r + 1"
      unfolding e using r1 assms by (simp add: mod_pos_pos_trivial)
    ultimately show ?thesis using r1 r q_def by simp
  qed
qed

lemma mod_shift4: "(y - 1968) mod 4 = 0 \<longleftrightarrow> y mod 4 = (0::int)"
  by presburger

lemma mod_shift100: "(y - 1900) mod 100 = 0 \<longleftrightarrow> y mod 100 = (0::int)"
  by presburger

lemma mod_shift400: "(y - 1600) mod 400 = 0 \<longleftrightarrow> y mod 400 = (0::int)"
proof -
  have "(y - 1600) mod 400 = (y - 4 * 400) mod 400" by simp
  also have "\<dots> = y mod 400"
    by (simp only: mod_diff_eq [symmetric, of y "4 * 400" 400] mod_mult_self2_is_0 diff_zero
        mod_mod_trivial)
  finally show ?thesis by simp
qed

lemma DayFromYear_Suc: "DayFromYear (y + 1) = DayFromYear y + DaysInYear y"
proof -
  have a: "(y + 1 - 1969) div 4 = (y - 1969) div 4 + (if y mod 4 = 0 then 1 else 0)"
    using div_succ [of 4 "y - 1969"] mod_shift4 [of y] by (simp add: algebra_simps)
  have b: "(y + 1 - 1901) div 100 = (y - 1901) div 100 + (if y mod 100 = 0 then 1 else 0)"
    using div_succ [of 100 "y - 1901"] mod_shift100 [of y] by (simp add: algebra_simps)
  have c: "(y + 1 - 1601) div 400 = (y - 1601) div 400 + (if y mod 400 = 0 then 1 else 0)"
    using div_succ [of 400 "y - 1601"] mod_shift400 [of y] by (simp add: algebra_simps)
  have d: "y mod 400 = 0 \<Longrightarrow> y mod 100 = 0" by presburger
  have e: "y mod 100 = 0 \<Longrightarrow> y mod 4 = 0" by presburger
  show ?thesis
    unfolding DayFromYear_def DaysInYear_def a b c using d e by auto
qed

lemma DaysInYear_bounds: "365 \<le> DaysInYear y" "DaysInYear y \<le> 366"
  unfolding DaysInYear_def by auto

function yearSearch :: "int \<Rightarrow> int \<Rightarrow> int" where
  "yearSearch d y = (if DayFromYear (y + 1) \<le> d then yearSearch d (y + 1) else y)"
  by pat_completeness auto
termination
proof (relation "measure (\<lambda>(d, y). nat (d - DayFromYear (y + 1) + 1))")
  show "wf (measure (\<lambda>(d, y). nat (d - DayFromYear (y + 1) + 1)))" by simp
next
  fix d y :: int
  assume "DayFromYear (y + 1) \<le> d"
  moreover have "DayFromYear (y + 1 + 1) = DayFromYear (y + 1) + DaysInYear (y + 1)"
    by (rule DayFromYear_Suc)
  moreover have "365 \<le> DaysInYear (y + 1)" by (rule DaysInYear_bounds)
  ultimately show "((d, y + 1), (d, y)) \<in> measure (\<lambda>(d, y). nat (d - DayFromYear (y + 1) + 1))"
    by simp
qed

declare yearSearch.simps [simp del]

definition YearFromTime :: "int \<Rightarrow> int" where
  "YearFromTime t =
     (let d = Day t in yearSearch d (1970 + (if 0 \<le> d then d div 366 else d div 365)))"

definition DayWithinYear :: "int \<Rightarrow> int" where
  "DayWithinYear t = Day t - DayFromYear (YearFromTime t)"

definition InLeapYear :: "int \<Rightarrow> int" where
  "InLeapYear t = (if DaysInYear (YearFromTime t) = 366 then 1 else 0)"

definition MonthFromTime :: "int \<Rightarrow> int" where
  "MonthFromTime t =
     (let d = DayWithinYear t; l = InLeapYear t in
      if d < 31 then 0
      else if d < 59 + l then 1
      else if d < 90 + l then 2
      else if d < 120 + l then 3
      else if d < 151 + l then 4
      else if d < 181 + l then 5
      else if d < 212 + l then 6
      else if d < 243 + l then 7
      else if d < 273 + l then 8
      else if d < 304 + l then 9
      else if d < 334 + l then 10
      else 11)"

definition DateFromTime :: "int \<Rightarrow> int" where
  "DateFromTime t =
     (let d = DayWithinYear t; l = InLeapYear t; m = MonthFromTime t in
      if m = 0 then d + 1
      else if m = 1 then d - 30
      else if m = 2 then d - 58 - l
      else if m = 3 then d - 89 - l
      else if m = 4 then d - 119 - l
      else if m = 5 then d - 150 - l
      else if m = 6 then d - 180 - l
      else if m = 7 then d - 211 - l
      else if m = 8 then d - 242 - l
      else if m = 9 then d - 272 - l
      else if m = 10 then d - 303 - l
      else d - 333 - l)"

definition HourFromTime :: "int \<Rightarrow> int" where
  "HourFromTime t = (t div 3600000) mod 24"

definition MinFromTime :: "int \<Rightarrow> int" where
  "MinFromTime t = (t div 60000) mod 60"

definition SecFromTime :: "int \<Rightarrow> int" where
  "SecFromTime t = (t div 1000) mod 60"

definition msFromTime :: "int \<Rightarrow> int" where
  "msFromTime t = t mod 1000"

text \<open>The decimal digit \<open>d\<close> as a character, and \<open>v\<close> written with exactly \<open>n\<close> digits.\<close>

definition digit :: "nat \<Rightarrow> char" where
  "digit d = char_of (48 + d)"

fun pad :: "nat \<Rightarrow> nat \<Rightarrow> string" where
  "pad 0 v = []"
| "pad (Suc n) v = pad n (v div 10) @ [digit (v mod 10)]"

text \<open>
  \<open>YYYY-MM-DDTHH:mm:ss.sssZ\<close>, the year with four digits from 0 to 9999 and with a sign and
  six digits otherwise. A \<open>Date\<close> holds a time value of at most 8.64e15 in absolute value
  (\<open>validTime\<close>), whose year has at most six digits.
\<close>

definition toISOString :: "int \<Rightarrow> string" where
  "toISOString t =
     (let y = YearFromTime t in
      (if 0 \<le> y \<and> y \<le> 9999 then pad 4 (nat y)
       else (if y < 0 then ''-'' else ''+'') @ pad 6 (nat \<bar>y\<bar>))
      @ ''-'' @ pad 2 (nat (MonthFromTime t + 1))
      @ ''-'' @ pad 2 (nat (DateFromTime t))
      @ ''T'' @ pad 2 (nat (HourFromTime t))
      @ '':'' @ pad 2 (nat (MinFromTime t))
      @ '':'' @ pad 2 (nat (SecFromTime t))
      @ ''.'' @ pad 3 (nat (msFromTime t))
      @ ''Z'')"

definition validTime :: "int \<Rightarrow> bool" where
  "validTime t \<longleftrightarrow> - 8640000000000000 \<le> t \<and> t \<le> 8640000000000000"

text \<open>A number in a template literal: decimal, without padding.\<close>

function decimal :: "nat \<Rightarrow> string" where
  "decimal n = (if n < 10 then [digit n] else decimal (n div 10) @ [digit (n mod 10)])"
  by pat_completeness auto
termination
  by (relation "measure id") auto

declare decimal.simps [simp del]

section \<open>The server route: \<open>src/server/routes/classify.ts\<close>\<close>

subsection \<open>The upload configuration (lines 5-16)\<close>

text \<open>
  A file part of the multipart body as it reaches the upload layer: the declared MIME type
  and the bytes that follow.
\<close>

record upload_part =
  originalname :: string
  mimetype :: string
  content :: "8 word list"

text \<open>\<open>limits: { fileSize: 10 * 1024 * 1024 }\<close>\<close>

definition fileSize :: nat where
  "fileSize = 10 * 1024 * 1024"

text \<open>
  \<open>fileFilter\<close>: the callback \<open>cb(null, true)\<close> is \<open>Inr True\<close>, the callback
  \<open>cb(new Error(...), false)\<close> is \<open>Inl\<close> of the error.
\<close>

definition fileFilter :: "upload_part \<Rightarrow> thrown + bool" where
  "fileFilter file =
     (if prefix ''image/'' (mimetype file) then Inr True
      else Inl (ErrorObj ''Only image files are allowed''))"

text \<open>The file object that memory storage leaves in \<open>req.file\<close>.\<close>

record multer_file =
  file_originalname :: string
  file_mimetype :: string
  buffer :: "8 word list"
  file_size :: nat

record request =
  req_file :: "multer_file option"

subsection \<open>The handler (lines 30-98)\<close>

text \<open>
  The handler calls out to the framework and the JavaScript runtime at five places inside
  its \<open>try\<close> block. Each of them either happens, and is then recorded as an effect, or
  throws. What is thrown, and where, is the environment's choice, as are the number that
  \<open>Math.random()\<close> returns and the wall clock.
\<close>

datatype callsite = BadRequestSend | DelayAwait | RandomCall | DateCall | SuccessSend

datatype effect =
    Responded nat json
  | Slept nat
  | DrewRandom
  | ReadClock
  | ConsoleError string thrown

text \<open>
  \<open>started\<close> is the wall clock, in milliseconds since the epoch, when the request
  reaches the handler, and \<open>clock\<close> is what the wall clock reads when \<open>new Date()\<close> runs
  (line 87). Both are the environment's: the handler only reads the clock, and nothing in
  it relates the two readings (a wall clock can be set back while the handler waits).
\<close>

record runtime =
  started :: int
  clock :: int
  math_random :: real
  fault :: "callsite \<Rightarrow> thrown option"

type_synonym progress = "effect list \<times> thrown option"

definition calling :: "runtime \<Rightarrow> callsite \<Rightarrow> effect \<Rightarrow> progress \<Rightarrow> progress" where
  "calling rt site e k =
     (case fault rt site of
        Some x \<Rightarrow> ([], Some x)
      | None \<Rightarrow> (e # fst k, snd k))"

definition finished :: progress where
  "finished = ([], None)"

definition mockPredictions :: "json list" where
  "mockPredictions =
    [ JObject
        [ (''condition'', JString ''Melanoma''),
          (''confidence'', JNumber 0.87),
          (''severity'', JString ''high''),
          (''description'', JString
            ''Detected suspicious pigmented lesion. Recommend immediate dermatological consultation for further evaluation.'') ],
      JObject
        [ (''condition'', JString ''Benign Nevus''),
          (''confidence'', JNumber 0.92),
          (''severity'', JString ''low''),
          (''description'', JString
            ''Appears to be a benign mole. Continue regular skin monitoring and annual dermatological check-ups.'') ],
      JObject
        [ (''condition'', JString ''Seborrheic Keratosis''),
          (''confidence'', JNumber 0.78),
          (''severity'', JString ''low''),
          (''description'', JString
            ''Common benign skin growth. No immediate treatment required unless cosmetically bothersome.'') ],
      JObject
        [ (''condition'', JString ''Basal Cell Carcinoma''),
          (''confidence'', JNumber 0.83),
          (''severity'', JString ''medium''),
          (''description'', JString
            ''Possible skin cancer detected. Recommend dermatological evaluation for confirmation and treatment planning.'') ] ]"

text \<open>
  Array read \<open>xs[i]\<close> with a number that is already an integer: out of range it is
  \<open>undefined\<close>.
\<close>

definition elemAt :: "'a list \<Rightarrow> int \<Rightarrow> 'a option" where
  "elemAt xs i = (if 0 \<le> i \<and> i < int (length xs) then Some (xs ! nat i) else None)"

text \<open>Object spread \<open>{...v}\<close>: the own properties of an object, nothing for \<open>undefined\<close>.\<close>

fun spread :: "json option \<Rightarrow> (string \<times> json) list" where
  "spread (Some (JObject kvs)) = kvs"
| "spread _ = []"

text \<open>
  \<open>mockPredictions[Math.floor(Math.random() * mockPredictions.length)]\<close>. The product
  with the length 4 is exact in binary floating point, so the real product is the
  program's.
\<close>

definition randomPrediction :: "runtime \<Rightarrow> json option" where
  "randomPrediction rt =
     elemAt mockPredictions \<lfloor>math_random rt * real (length mockPredictions)\<rfloor>"

text \<open>
  Writing a property into an object literal after a spread: it replaces a property of the
  same name and is added at the end otherwise.
\<close>

definition setProperty :: "string \<Rightarrow> json \<Rightarrow> (string \<times> json) list \<Rightarrow> (string \<times> json) list" where
  "setProperty k v kvs =
     (if k \<in> fst ` set kvs then map (\<lambda>(k', v'). if k' = k then (k', v) else (k', v')) kvs
      else kvs @ [(k, v)])"

text \<open>\<open>{ ...randomPrediction, timestamp: new Date().toISOString() }\<close>\<close>

definition response :: "runtime \<Rightarrow> json" where
  "response rt =
     JObject (setProperty ''timestamp'' (JString (toISOString (clock rt)))
                (spread (randomPrediction rt)))"

text \<open>
  The \<open>try\<close> block, lines 32-90: the effects that happened, and what was thrown, if
  anything was. \<open>res.json\<close> without a status answers with the default status 200.
\<close>

definition tryBlock :: "request \<Rightarrow> runtime \<Rightarrow> progress" where
  "tryBlock req rt =
     (case req_file req of
        None \<Rightarrow>
          calling rt BadRequestSend
            (Responded 400 (JObject [(''error'', JString ''No image file provided'')])) finished
      | Some f \<Rightarrow>
          calling rt DelayAwait (Slept 2000)
            (calling rt RandomCall DrewRandom
              (calling rt DateCall ReadClock
                (calling rt SuccessSend (Responded 200 (response rt)) finished))))"

text \<open>The \<open>catch\<close> block, lines 91-97.\<close>

definition catchBlock :: "thrown \<Rightarrow> effect list" where
  "catchBlock error =
     [ ConsoleError ''Classification error:'' error,
       Responded 500
         (JObject
           [ (''error'', JString ''Failed to process image classification''),
             (''details'', JString
                (case error of ErrorObj message \<Rightarrow> message | NonError \<Rightarrow> ''Unknown error'')) ]) ]"

definition handleClassification :: "request \<Rightarrow> runtime \<Rightarrow> effect list" where
  "handleClassification req rt =
     (case tryBlock req rt of
        (effects, None) \<Rightarrow> effects
      | (effects, Some error) \<Rightarrow> effects @ catchBlock error)"

subsection \<open>The upload middleware and the route\<close>

datatype upload_error = FilterRejected thrown | LimitFileSize

text \<open>
  Modelled from the spec: the engine behind \<open>upload.single("image")\<close> (line 27) is the
  upload library, which the repository configures (lines 6-16) and does not contain.
  Sections 3, 4.1 and 8 of the specification give what it does with that configuration:
  the file filter decides at the field level, a payload of at most the size limit is
  accepted, and a larger one is rejected by the transport layer. The limit and the filter
  are the source's.
\<close>

definition uploadMiddleware :: "upload_part option \<Rightarrow> upload_error + request" where
  "uploadMiddleware incoming =
     (case incoming of
        None \<Rightarrow> Inr \<lparr>req_file = None\<rparr>
      | Some part \<Rightarrow>
          (case fileFilter part of
             Inl e \<Rightarrow> Inl (FilterRejected e)
           | Inr False \<Rightarrow> Inr \<lparr>req_file = None\<rparr>
           | Inr True \<Rightarrow>
               if fileSize < length (content part) then Inl LimitFileSize
               else Inr \<lparr>req_file = Some
                      \<lparr>file_originalname = originalname part,
                       file_mimetype = mimetype part,
                       buffer = content part,
                       file_size = length (content part)\<rparr>\<rparr>))"

datatype outcome = Rejected upload_error | Handled "effect list"

text \<open>
  Modelled from the spec: the registration of the route is in the server's entry file,
  which is not among the sources. Sections 4.1 and 8 of the specification say that an
  upload that violates the bounds is rejected before the handler runs, so the middleware
  comes first and the handler only runs on what it lets through.
\<close>

definition classifyRoute :: "upload_part option \<Rightarrow> runtime \<Rightarrow> outcome" where
  "classifyRoute incoming rt =
     (case uploadMiddleware incoming of
        Inl e \<Rightarrow> Rejected e
      | Inr req \<Rightarrow> Handled (handleClassification req rt))"

section \<open>The client page: \<open>src/client/pages/Index.tsx\<close>\<close>

text \<open>A file object of the browser, and the five state variables of the page (lines 15-19).\<close>

record client_file =
  file_name :: string
  file_type :: string
  file_bytes :: "8 word list"

record page_state =
  selectedImage :: "client_file option"
  imagePreview :: "string option"
  isAnalyzing :: bool
  prediction :: json
  isDragOver :: bool

text \<open>
  What a handler asks of the browser: reading a file as a data URL (whose \<open>onload\<close>
  arrives later as an event of its own), a request, a line on the console.
\<close>

datatype client_effect =
    ReadAsDataURL client_file
  | Fetch string string client_file
  | ConsoleLog string thrown

definition handleImageSelect :: "client_file \<Rightarrow> page_state \<Rightarrow> page_state \<times> client_effect list" where
  "handleImageSelect file st =
     (st\<lparr>selectedImage := Some file, prediction := JNull\<rparr>, [ReadAsDataURL file])"

text \<open>The reader's \<open>onload\<close> callback (lines 26-28).\<close>

definition readerOnload :: "string \<Rightarrow> page_state \<Rightarrow> page_state" where
  "readerOnload result st = st\<lparr>imagePreview := Some result\<rparr>"

text \<open>\<open>handleDrop\<close>, with the files of the drop event's data transfer.\<close>

definition handleDrop :: "client_file list \<Rightarrow> page_state \<Rightarrow> page_state \<times> client_effect list" where
  "handleDrop files st =
     (let st' = st\<lparr>isDragOver := False\<rparr> in
      case files of
        [] \<Rightarrow> (st', [])
      | file # _ \<Rightarrow>
          if prefix ''image/'' (file_type file) then handleImageSelect file st' else (st', []))"

text \<open>\<open>handleFileChange\<close>, with \<open>e.target.files\<close>, which may be null.\<close>

definition handleFileChange ::
  "client_file list option \<Rightarrow> page_state \<Rightarrow> page_state \<times> client_effect list" where
  "handleFileChange files st =
     (case files of
        None \<Rightarrow> (st, [])
      | Some [] \<Rightarrow> (st, [])
      | Some (file # _) \<Rightarrow> handleImageSelect file st)"

text \<open>
  How the request ends: \<open>fetch\<close> rejects, or it resolves with a response that has a status
  and whose \<open>json()\<close> gives a value or throws.
\<close>

datatype fetch_result = FetchFailed thrown | FetchResponse nat "thrown + json"

definition ok :: "nat \<Rightarrow> bool" where
  "ok status \<longleftrightarrow> 200 \<le> status \<and> status \<le> 299"

definition fallback :: json where
  "fallback =
     JObject
       [ (''condition'', JString ''Analysis Error''),
         (''confidence'', JNumber 0),
         (''severity'', JString ''medium''),
         (''description'', JString
            ''Unable to analyze image. Please try again or contact support if the problem persists.'') ]"

text \<open>The \<open>catch\<close> block of \<open>analyzeImage\<close> (lines 69-77).\<close>

definition analyzeCatch :: "thrown \<Rightarrow> page_state \<Rightarrow> page_state \<times> client_effect list" where
  "analyzeCatch error st =
     (st\<lparr>prediction := fallback\<rparr>, [ConsoleLog ''Error analyzing image:'' error])"

text \<open>
  \<open>analyzeImage\<close> from its call to its end, the request ending as \<open>result\<close> says. The
  state updates of one run are applied in the order in which the run makes them.
\<close>

definition analyzeImage :: "fetch_result \<Rightarrow> page_state \<Rightarrow> page_state \<times> client_effect list" where
  "analyzeImage result st =
     (case selectedImage st of
        None \<Rightarrow> (st, [])
      | Some img \<Rightarrow>
          (let st1 = st\<lparr>isAnalyzing := True\<rparr>;
               (st2, logged) =
                 (case result of
                    FetchFailed error \<Rightarrow> analyzeCatch error st1
                  | FetchResponse status body \<Rightarrow>
                      if \<not> ok status then
                        analyzeCatch (ErrorObj (''HTTP error! status: '' @ decimal status)) st1
                      else
                        (case body of
                           Inl error \<Rightarrow> analyzeCatch error st1
                         | Inr payload \<Rightarrow> (st1\<lparr>prediction := payload\<rparr>, [])))
           in (st2\<lparr>isAnalyzing := False\<rparr>, Fetch ''/api/classify'' ''POST'' img # logged)))"

definition clearImage :: "page_state \<Rightarrow> page_state" where
  "clearImage st = st\<lparr>selectedImage := None, imagePreview := None, prediction := JNull\<rparr>"

section \<open>What a timestamp denotes\<close>

text \<open>
  The specification asks of the timestamp that it be in ISO-8601 format and denote a point
  in time. \<open>parseISO\<close> says what that means: it reads the complete date-time form with
  milliseconds and the UTC designator \<open>Z\<close>, the year with four digits or with a sign and six
  (never \<open>-000000\<close>), checks the ranges of the fields against the calendar, and gives the
  time value that the fields denote (the standard's \<open>MakeDay\<close>, \<open>MakeTime\<close> and
  \<open>MakeDate\<close>). It is \<open>None\<close> on every other string.
\<close>

definition digitValue :: "char \<Rightarrow> nat option" where
  "digitValue c =
     (let n = (of_char c :: nat) in if 48 \<le> n \<and> n \<le> 57 then Some (n - 48) else None)"

fun digitsValue :: "nat \<Rightarrow> string \<Rightarrow> nat option" where
  "digitsValue acc [] = Some acc"
| "digitsValue acc (c # cs) =
     (case digitValue c of None \<Rightarrow> None | Some d \<Rightarrow> digitsValue (10 * acc + d) cs)"

definition takeDigits :: "nat \<Rightarrow> string \<Rightarrow> (nat \<times> string) option" where
  "takeDigits n s =
     (if length s < n then None
      else case digitsValue 0 (take n s) of
             None \<Rightarrow> None
           | Some v \<Rightarrow> Some (v, drop n s))"

definition expect :: "char \<Rightarrow> string \<Rightarrow> string option" where
  "expect c s = (case s of [] \<Rightarrow> None | x # r \<Rightarrow> if x = c then Some r else None)"

text \<open>
  The number of days of the year before month \<open>m\<close> (0 to 11; 12 gives the length of the
  year), \<open>l\<close> being 1 in a leap year and 0 otherwise.
\<close>

definition monthStart :: "int \<Rightarrow> int \<Rightarrow> int" where
  "monthStart l m =
     (if m = 0 then 0
      else if m = 1 then 31
      else if m = 2 then 59 + l
      else if m = 3 then 90 + l
      else if m = 4 then 120 + l
      else if m = 5 then 151 + l
      else if m = 6 then 181 + l
      else if m = 7 then 212 + l
      else if m = 8 then 243 + l
      else if m = 9 then 273 + l
      else if m = 10 then 304 + l
      else if m = 11 then 334 + l
      else 365 + l)"

definition firstDayOfMonth :: "int \<Rightarrow> int \<Rightarrow> int" where
  "firstDayOfMonth y m = monthStart (if DaysInYear y = 366 then 1 else 0) m"

definition MakeDay :: "int \<Rightarrow> int \<Rightarrow> int \<Rightarrow> int" where
  "MakeDay y m d = DayFromYear y + firstDayOfMonth y m + d - 1"

definition MakeTime :: "int \<Rightarrow> int \<Rightarrow> int \<Rightarrow> int \<Rightarrow> int" where
  "MakeTime h m s ms = h * 3600000 + m * 60000 + s * 1000 + ms"

definition MakeDate :: "int \<Rightarrow> int \<Rightarrow> int" where
  "MakeDate day time = day * msPerDay + time"

definition parseYear :: "string \<Rightarrow> (int \<times> string) option" where
  "parseYear s =
     (case s of
        [] \<Rightarrow> None
      | c # r \<Rightarrow>
          if c = CHR ''+'' then
            do { (y, r') \<leftarrow> takeDigits 6 r; Some (int y, r') }
          else if c = CHR ''-'' then
            do { (y, r') \<leftarrow> takeDigits 6 r; if y = 0 then None else Some (- int y, r') }
          else
            do { (y, r') \<leftarrow> takeDigits 4 s; Some (int y, r') })"

definition parseISO :: "string \<Rightarrow> int option" where
  "parseISO s =
     do {
       (y, s) \<leftarrow> parseYear s;
       s \<leftarrow> expect CHR ''-'' s;
       (mo, s) \<leftarrow> takeDigits 2 s;
       s \<leftarrow> expect CHR ''-'' s;
       (d, s) \<leftarrow> takeDigits 2 s;
       s \<leftarrow> expect CHR ''T'' s;
       (h, s) \<leftarrow> takeDigits 2 s;
       s \<leftarrow> expect CHR '':'' s;
       (mi, s) \<leftarrow> takeDigits 2 s;
       s \<leftarrow> expect CHR '':'' s;
       (sec, s) \<leftarrow> takeDigits 2 s;
       s \<leftarrow> expect CHR ''.'' s;
       (ms, s) \<leftarrow> takeDigits 3 s;
       s \<leftarrow> expect CHR ''Z'' s;
       if s = [] \<and> 1 \<le> mo \<and> mo \<le> 12
          \<and> 1 \<le> d \<and> int d \<le> firstDayOfMonth y (int mo) - firstDayOfMonth y (int mo - 1)
          \<and> h \<le> 23 \<and> mi \<le> 59 \<and> sec \<le> 59
       then Some (MakeDate (MakeDay y (int mo - 1) (int d))
                    (MakeTime (int h) (int mi) (int sec) (int ms)))
       else None
     }"

text \<open>The month of the \<open>d\<close>-th day of a year, as \<open>MonthFromTime\<close> finds it.\<close>

definition monthIndex :: "int \<Rightarrow> int \<Rightarrow> int" where
  "monthIndex l d =
     (if d < 31 then 0
      else if d < 59 + l then 1
      else if d < 90 + l then 2
      else if d < 120 + l then 3
      else if d < 151 + l then 4
      else if d < 181 + l then 5
      else if d < 212 + l then 6
      else if d < 243 + l then 7
      else if d < 273 + l then 8
      else if d < 304 + l then 9
      else if d < 334 + l then 10
      else 11)"

section \<open>Properties of the clock\<close>

subsection \<open>The year of a time value\<close>

lemma yearSearch_spec:
  "DayFromYear y \<le> d \<Longrightarrow>
   DayFromYear (yearSearch d y) \<le> d \<and> d < DayFromYear (yearSearch d y + 1)"
proof (induction d y rule: yearSearch.induct)
  case (1 d y)
  show ?case
  proof (cases "DayFromYear (y + 1) \<le> d")
    case True
    then show ?thesis using "1.IH" [OF True True] by (subst (1 2) yearSearch.simps) simp
  next
    case False
    then show ?thesis using "1.prems" by (subst (1 2) yearSearch.simps) simp
  qed
qed

lemma DayFromYear_upper: "0 \<le> k \<Longrightarrow> DayFromYear (1970 + k) \<le> 366 * k"
proof (induction k rule: int_ge_induct)
  case base
  show ?case by (simp add: DayFromYear_def)
next
  case (step i)
  have "DayFromYear (1970 + (i + 1)) = DayFromYear (1970 + i) + DaysInYear (1970 + i)"
    using DayFromYear_Suc [of "1970 + i"] by (simp add: algebra_simps)
  then show ?case using step DaysInYear_bounds [of "1970 + i"] by simp
qed

lemma DayFromYear_lower: "k \<le> 0 \<Longrightarrow> DayFromYear (1970 + k) \<le> 365 * k"
proof (induction k rule: int_le_induct)
  case base
  show ?case by (simp add: DayFromYear_def)
next
  case (step i)
  have "DayFromYear (1970 + i) = DayFromYear (1970 + (i - 1)) + DaysInYear (1970 + (i - 1))"
    using DayFromYear_Suc [of "1970 + (i - 1)"] by (simp add: algebra_simps)
  then show ?case using step DaysInYear_bounds [of "1970 + (i - 1)"] by simp
qed

lemma year_estimate: "DayFromYear (1970 + (if 0 \<le> d then d div 366 else d div 365)) \<le> d"
proof (cases "0 \<le> d")
  case True
  then have "0 \<le> d div 366" by simp
  from DayFromYear_upper [OF this]
  have "DayFromYear (1970 + d div 366) \<le> 366 * (d div 366)" .
  also have "\<dots> \<le> d" by (simp add: algebra_simps)
  finally show ?thesis using True by simp
next
  case False
  then have "d div 365 \<le> 0" by simp
  from DayFromYear_lower [OF this]
  have "DayFromYear (1970 + d div 365) \<le> 365 * (d div 365)" .
  also have "\<dots> \<le> d" by (simp add: algebra_simps)
  finally show ?thesis using False by simp
qed

text \<open>The year found is the one in which the day lies.\<close>

lemma YearFromTime_spec:
  "DayFromYear (YearFromTime t) \<le> Day t" "Day t < DayFromYear (YearFromTime t + 1)"
  using yearSearch_spec [OF year_estimate, of "Day t"] by (simp_all add: YearFromTime_def Let_def)

lemma DayFromYear_mono: "y \<le> y' \<Longrightarrow> DayFromYear y \<le> DayFromYear y'"
proof (induction y' rule: int_ge_induct)
  case base
  show ?case by simp
next
  case (step i)
  then show ?case using DayFromYear_Suc [of i] DaysInYear_bounds [of i] by simp
qed

text \<open>It is the largest year that begins on or before the day, as the standard defines it.\<close>

lemma YearFromTime_largest:
  assumes "DayFromYear y \<le> Day t"
  shows "y \<le> YearFromTime t"
proof (rule ccontr)
  assume "\<not> y \<le> YearFromTime t"
  then have "DayFromYear (YearFromTime t + 1) \<le> DayFromYear y"
    by (intro DayFromYear_mono) simp
  then show False using assms YearFromTime_spec(2) [of t] by simp
qed

lemma YearFromTime_range:
  assumes "validTime t"
  shows "- 999999 \<le> YearFromTime t" "YearFromTime t \<le> 999999"
proof -
  have lo: "- 8640000000000000 \<le> t" and hi: "t \<le> 8640000000000000"
    using assms by (simp_all add: validTime_def)
  have d: "- 100000000 \<le> Day t" "Day t \<le> 100000000"
    using zdiv_mono1 [OF lo, of 86400000] zdiv_mono1 [OF hi, of 86400000]
    by (simp_all add: Day_def msPerDay_def)
  show "YearFromTime t \<le> 999999"
  proof (rule ccontr)
    assume "\<not> YearFromTime t \<le> 999999"
    then have "DayFromYear 1000000 \<le> DayFromYear (YearFromTime t)"
      by (intro DayFromYear_mono) simp
    then show False using YearFromTime_spec(1) [of t] d by (simp add: DayFromYear_def)
  qed
  show "- 999999 \<le> YearFromTime t"
  proof (rule ccontr)
    assume "\<not> - 999999 \<le> YearFromTime t"
    then have "DayFromYear (YearFromTime t + 1) \<le> DayFromYear (- 999999)"
      by (intro DayFromYear_mono) simp
    then show False using YearFromTime_spec(2) [of t] d by (simp add: DayFromYear_def)
  qed
qed

subsection \<open>Month, date and time of day\<close>

lemma MonthFromTime_monthIndex: "MonthFromTime t = monthIndex (InLeapYear t) (DayWithinYear t)"
  by (simp add: MonthFromTime_def monthIndex_def Let_def)

lemma monthIndex_bounds: "0 \<le> monthIndex l d" "monthIndex l d \<le> 11"
  by (simp_all add: monthIndex_def)

lemma monthStart_le: "0 \<le> d \<Longrightarrow> 0 \<le> l \<Longrightarrow> monthStart l (monthIndex l d) \<le> d"
  by (simp add: monthIndex_def monthStart_def)

lemma monthStart_gt: "d < 365 + l \<Longrightarrow> d < monthStart l (monthIndex l d + 1)"
  by (simp add: monthIndex_def monthStart_def)

lemma DateFromTime_eq:
  "DateFromTime t = DayWithinYear t - monthStart (InLeapYear t) (MonthFromTime t) + 1"
  by (simp add: DateFromTime_def MonthFromTime_def monthStart_def Let_def)

lemma InLeapYear_eq: "InLeapYear t = (if DaysInYear (YearFromTime t) = 366 then 1 else 0)"
  by (simp add: InLeapYear_def)

lemma DaysInYear_leap: "DaysInYear (YearFromTime t) = 365 + InLeapYear t"
  by (simp add: InLeapYear_def DaysInYear_def)

lemma DayWithinYear_bounds:
  "0 \<le> DayWithinYear t" "DayWithinYear t < 365 + InLeapYear t"
  using YearFromTime_spec [of t] DayFromYear_Suc [of "YearFromTime t"] DaysInYear_leap [of t]
  by (simp_all add: DayWithinYear_def)

lemma MonthFromTime_bounds: "0 \<le> MonthFromTime t" "MonthFromTime t \<le> 11"
  by (simp_all add: MonthFromTime_monthIndex monthIndex_bounds)

lemma DateFromTime_bounds:
  "1 \<le> DateFromTime t"
  "DateFromTime t \<le> firstDayOfMonth (YearFromTime t) (MonthFromTime t + 1)
                       - firstDayOfMonth (YearFromTime t) (MonthFromTime t)"
proof -
  have l: "0 \<le> InLeapYear t" by (simp add: InLeapYear_def)
  show "1 \<le> DateFromTime t"
    using monthStart_le [OF DayWithinYear_bounds(1) [of t] l]
    by (simp add: DateFromTime_eq MonthFromTime_monthIndex)
  show "DateFromTime t \<le> firstDayOfMonth (YearFromTime t) (MonthFromTime t + 1)
                       - firstDayOfMonth (YearFromTime t) (MonthFromTime t)"
    using monthStart_gt [OF DayWithinYear_bounds(2) [of t]]
    by (simp add: DateFromTime_eq MonthFromTime_monthIndex firstDayOfMonth_def
        InLeapYear_eq [symmetric])
qed

lemma MakeDay_fields:
  "MakeDay (YearFromTime t) (MonthFromTime t) (DateFromTime t) = Day t"
  by (simp add: MakeDay_def DateFromTime_eq DayWithinYear_def firstDayOfMonth_def
      InLeapYear_eq [symmetric])

lemma MakeTime_fields:
  "MakeTime (HourFromTime t) (MinFromTime t) (SecFromTime t) (msFromTime t) = TimeWithinDay t"
proof -
  define h where "h = t div 3600000 mod 24"
  define m where "m = t div 60000 mod 60"
  define s where "s = t div 1000 mod 60"
  define r1 where "r1 = t mod 3600000"
  define r2 where "r2 = t mod 60000"
  define r3 where "r3 = t mod 1000"
  define r0 where "r0 = t mod 86400000"
  have a: "r0 = 3600000 * h + r1"
    unfolding r0_def h_def r1_def using zmod_zmult2_eq [of 24 t 3600000] by simp
  have b: "r1 = 60000 * m + r2"
    unfolding r1_def m_def r2_def using zmod_zmult2_eq [of 60 t 60000] by simp
  have c: "r2 = 1000 * s + r3"
    unfolding r2_def s_def r3_def using zmod_zmult2_eq [of 60 t 1000] by simp
  have "h * 3600000 + m * 60000 + s * 1000 + r3 = r0"
    using a b c by simp
  then show ?thesis
    unfolding MakeTime_def HourFromTime_def MinFromTime_def SecFromTime_def msFromTime_def
      TimeWithinDay_def msPerDay_def h_def m_def s_def r3_def r0_def .
qed

lemma MakeDate_fields: "MakeDate (Day t) (TimeWithinDay t) = t"
  by (simp add: MakeDate_def Day_def TimeWithinDay_def)

lemma time_fields_bounds:
  "0 \<le> HourFromTime t" "HourFromTime t \<le> 23"
  "0 \<le> MinFromTime t" "MinFromTime t \<le> 59"
  "0 \<le> SecFromTime t" "SecFromTime t \<le> 59"
  "0 \<le> msFromTime t" "msFromTime t \<le> 999"
proof -
  have "HourFromTime t < 24" "MinFromTime t < 60" "SecFromTime t < 60" "msFromTime t < 1000"
    unfolding HourFromTime_def MinFromTime_def SecFromTime_def msFromTime_def
    by (rule pos_mod_bound, simp)+
  then show "HourFromTime t \<le> 23" "MinFromTime t \<le> 59" "SecFromTime t \<le> 59"
    "msFromTime t \<le> 999"
    by simp_all
  show "0 \<le> HourFromTime t" "0 \<le> MinFromTime t" "0 \<le> SecFromTime t" "0 \<le> msFromTime t"
    unfolding HourFromTime_def MinFromTime_def SecFromTime_def msFromTime_def
    by (rule pos_mod_sign, simp)+
qed

subsection \<open>Digits\<close>

lemma digitValue_digit: "d < 10 \<Longrightarrow> digitValue (digit d) = Some d"
  by (simp add: digitValue_def digit_def Let_def)

lemma digitsValue_snoc:
  "digitsValue acc (xs @ [c]) =
     (case digitsValue acc xs of
        None \<Rightarrow> None
      | Some a \<Rightarrow> (case digitValue c of None \<Rightarrow> None | Some d \<Rightarrow> Some (10 * a + d)))"
  by (induction xs arbitrary: acc) (auto split: option.splits)

lemma digitsValue_pad: "digitsValue acc (pad n v) = Some (acc * 10 ^ n + v mod 10 ^ n)"
proof (induction n arbitrary: v)
  case 0
  show ?case by simp
next
  case (Suc n)
  have "v mod 10 ^ Suc n = 10 * ((v div 10) mod 10 ^ n) + v mod 10"
    by (simp add: mod_mult2_eq)
  then show ?case
    by (simp add: digitsValue_snoc Suc.IH digitValue_digit algebra_simps)
qed

lemma length_pad: "length (pad n v) = n"
  by (induction n arbitrary: v) simp_all

lemma takeDigits_pad: "v < 10 ^ n \<Longrightarrow> takeDigits n (pad n v @ r) = Some (v, r)"
  by (simp add: takeDigits_def digitsValue_pad length_pad)

lemma expect_Cons: "expect c (c # r) = Some r"
  by (simp add: expect_def)

lemma digitValue_pad: "c \<in> set (pad n v) \<Longrightarrow> digitValue c \<noteq> None"
proof (induction n arbitrary: v)
  case 0
  then show ?case by simp
next
  case (Suc n)
  have "v mod 10 < 10" by simp
  then have "digitValue (digit (v mod 10)) = Some (v mod 10)" by (rule digitValue_digit)
  then show ?case using Suc by auto
qed

subsection \<open>Reading back what \<open>toISOString\<close> writes\<close>

lemma parseYear_pad4:
  assumes "v < 10000"
  shows "parseYear (pad 4 v @ r) = Some (int v, r)"
proof -
  have "length (pad 4 v) = 4" by (rule length_pad)
  then obtain c cs where p: "pad 4 v = c # cs" by (cases "pad 4 v") auto
  then have "c \<in> set (pad 4 v)" by simp
  then have "digitValue c \<noteq> None" by (rule digitValue_pad)
  then have c: "c \<noteq> CHR ''+''" "c \<noteq> CHR ''-''" by (auto simp add: digitValue_def)
  have "takeDigits 4 (pad 4 v @ r) = Some (v, r)" using assms by (simp add: takeDigits_pad)
  then have "takeDigits 4 (c # cs @ r) = Some (v, r)" by (simp add: p)
  then show ?thesis unfolding p using c by (simp add: parseYear_def)
qed

lemma parseYear_plus:
  assumes "v < 1000000"
  shows "parseYear (''+'' @ pad 6 v @ r) = Some (int v, r)"
  using assms by (simp add: parseYear_def takeDigits_pad)

lemma parseYear_minus:
  assumes "v < 1000000" "v \<noteq> 0"
  shows "parseYear (''-'' @ pad 6 v @ r) = Some (- int v, r)"
  using assms by (simp add: parseYear_def takeDigits_pad)

lemma parseISO_format:
  assumes yr: "\<And>r. parseYear (ys @ r) = Some (Y, r)"
    and width: "h < 100" "mi < 100" "sec < 100" "ms < 1000"
    and range: "1 \<le> mo" "mo \<le> 12" "1 \<le> d"
      "int d \<le> firstDayOfMonth Y (int mo) - firstDayOfMonth Y (int mo - 1)"
      "h \<le> 23" "mi \<le> 59" "sec \<le> 59"
  shows "parseISO (ys @ ''-'' @ pad 2 mo @ ''-'' @ pad 2 d @ ''T'' @ pad 2 h @ '':'' @ pad 2 mi
            @ '':'' @ pad 2 sec @ ''.'' @ pad 3 ms @ ''Z'')
         = Some (MakeDate (MakeDay Y (int mo - 1) (int d))
                   (MakeTime (int h) (int mi) (int sec) (int ms)))"
proof -
  have "d \<le> 31"
    using range(4) by (simp add: firstDayOfMonth_def monthStart_def split: if_splits)
  then have "d < 100" "mo < 100" using range by simp_all
  then show ?thesis
    using width range by (simp add: parseISO_def yr takeDigits_pad expect_Cons)
qed

lemma parseYear_toISOString:
  assumes "validTime t"
  shows "parseYear
           ((if 0 \<le> YearFromTime t \<and> YearFromTime t \<le> 9999 then pad 4 (nat (YearFromTime t))
             else (if YearFromTime t < 0 then ''-'' else ''+'') @ pad 6 (nat \<bar>YearFromTime t\<bar>))
            @ r)
         = Some (YearFromTime t, r)"
proof -
  define y where "y = YearFromTime t"
  have r: "- 999999 \<le> y" "y \<le> 999999"
    using YearFromTime_range [OF assms] by (simp_all add: y_def)
  consider "0 \<le> y \<and> y \<le> 9999" | "y < 0" | "9999 < y" by linarith
  then show ?thesis
  proof cases
    case 1
    then have "nat y < 10000" by linarith
    from parseYear_pad4 [OF this, of r] show ?thesis using 1 by (simp add: y_def)
  next
    case 2
    then have "nat \<bar>y\<bar> < 1000000" "nat \<bar>y\<bar> \<noteq> 0" using r by linarith+
    from parseYear_minus [OF this, of r] show ?thesis using 2 by (simp add: y_def)
  next
    case 3
    then have "nat \<bar>y\<bar> < 1000000" using r by linarith
    from parseYear_plus [OF this, of r] show ?thesis using 3 by (simp add: y_def)
  qed
qed

text \<open>
  Every time value that a \<open>Date\<close> can hold is written by \<open>toISOString\<close> as a string that
  reads back as that very time value.
\<close>

lemma parseISO_toISOString:
  assumes "validTime t"
  shows "parseISO (toISOString t) = Some t"
proof -
  define ys where "ys =
    (if 0 \<le> YearFromTime t \<and> YearFromTime t \<le> 9999 then pad 4 (nat (YearFromTime t))
     else (if YearFromTime t < 0 then ''-'' else ''+'') @ pad 6 (nat \<bar>YearFromTime t\<bar>))"
  define mo where "mo = nat (MonthFromTime t + 1)"
  define d where "d = nat (DateFromTime t)"
  define h where "h = nat (HourFromTime t)"
  define mi where "mi = nat (MinFromTime t)"
  define sec where "sec = nat (SecFromTime t)"
  define ms where "ms = nat (msFromTime t)"
  have yr: "\<And>r. parseYear (ys @ r) = Some (YearFromTime t, r)"
    unfolding ys_def by (rule parseYear_toISOString [OF assms])
  have ints: "int mo = MonthFromTime t + 1" "int d = DateFromTime t" "int h = HourFromTime t"
    "int mi = MinFromTime t" "int sec = SecFromTime t" "int ms = msFromTime t"
    using MonthFromTime_bounds [of t] DateFromTime_bounds(1) [of t] time_fields_bounds [of t]
    by (simp_all add: mo_def d_def h_def mi_def sec_def ms_def)
  have width: "h < 100" "mi < 100" "sec < 100" "ms < 1000"
    using time_fields_bounds [of t] by (simp_all add: h_def mi_def sec_def ms_def)
  have range: "1 \<le> mo" "mo \<le> 12" "1 \<le> d"
    "int d \<le> firstDayOfMonth (YearFromTime t) (int mo)
              - firstDayOfMonth (YearFromTime t) (int mo - 1)"
    "h \<le> 23" "mi \<le> 59" "sec \<le> 59"
    using MonthFromTime_bounds [of t] DateFromTime_bounds [of t] time_fields_bounds [of t]
    by (simp_all add: ints) (simp_all add: mo_def d_def h_def mi_def sec_def)
  have "toISOString t = ys @ ''-'' @ pad 2 mo @ ''-'' @ pad 2 d @ ''T'' @ pad 2 h @ '':''
          @ pad 2 mi @ '':'' @ pad 2 sec @ ''.'' @ pad 3 ms @ ''Z''"
    by (simp add: toISOString_def Let_def ys_def mo_def d_def h_def mi_def sec_def ms_def)
  then have "parseISO (toISOString t)
      = Some (MakeDate (MakeDay (YearFromTime t) (int mo - 1) (int d))
                (MakeTime (int h) (int mi) (int sec) (int ms)))"
    using parseISO_format [OF yr width range] by simp
  then show ?thesis
    by (simp add: ints MakeDay_fields MakeTime_fields MakeDate_fields)
qed

section \<open>Properties of the server route\<close>

lemma calling_None: "fault rt site = None \<Longrightarrow> calling rt site e k = (e # fst k, snd k)"
  by (simp add: calling_def)

lemma tryBlock_thrown_no_response:
  assumes "snd (tryBlock req rt) = Some error"
  shows "Responded status body \<notin> set (fst (tryBlock req rt))"
  using assms
  by (auto simp add: tryBlock_def calling_def finished_def split: option.splits)

text \<open>What the \<open>try\<close> block throws is what the first of its calls that throws, throws.\<close>

lemma tryBlock_thrown:
  "snd (tryBlock req rt) =
     (case req_file req of
        None \<Rightarrow> fault rt BadRequestSend
      | Some f \<Rightarrow>
          (case fault rt DelayAwait of
             Some e \<Rightarrow> Some e
           | None \<Rightarrow>
               (case fault rt RandomCall of
                  Some e \<Rightarrow> Some e
                | None \<Rightarrow>
                    (case fault rt DateCall of
                       Some e \<Rightarrow> Some e
                     | None \<Rightarrow> fault rt SuccessSend))))"
  by (simp add: tryBlock_def calling_def finished_def split: option.splits)

lemma tryBlock_no_fault:
  assumes "req_file req = Some f" and "\<forall>site. fault rt site = None"
  shows "tryBlock req rt = ([Slept 2000, DrewRandom, ReadClock, Responded 200 (response rt)], None)"
  using assms by (simp add: tryBlock_def calling_def finished_def)

lemma randomPrediction_catalog:
  assumes "0 \<le> math_random rt" and "math_random rt < 1"
  shows "\<exists>entry \<in> set mockPredictions. randomPrediction rt = Some entry"
proof -
  have len: "length mockPredictions = 4" by (simp add: mockPredictions_def)
  define i where "i = \<lfloor>math_random rt * 4\<rfloor>"
  have "0 \<le> i" using assms(1) by (simp add: i_def)
  moreover have "i < 4" using assms(2) by (simp add: i_def floor_less_iff)
  ultimately have "nat i < length mockPredictions"
    and "elemAt mockPredictions i = Some (mockPredictions ! nat i)"
    by (simp_all add: elemAt_def len)
  then have "mockPredictions ! nat i \<in> set mockPredictions"
    and "randomPrediction rt = Some (mockPredictions ! nat i)"
    by (simp_all add: randomPrediction_def len i_def)
  then show ?thesis by blast
qed

lemma catalog_entries:
  assumes "entry \<in> set mockPredictions"
  shows "field ''condition'' entry
           \<in> {Some (JString ''Melanoma''), Some (JString ''Benign Nevus''),
              Some (JString ''Seborrheic Keratosis''), Some (JString ''Basal Cell Carcinoma'')}"
    and "case field ''confidence'' entry of Some (JNumber c) \<Rightarrow> 0 < c \<and> c < 1 | _ \<Rightarrow> False"
    and "field ''severity'' entry
           \<in> {Some (JString ''low''), Some (JString ''medium''), Some (JString ''high'')}"
    and "field ''timestamp'' entry = None"
    and "\<exists>kvs. entry = JObject kvs"
  using assms by (auto simp add: mockPredictions_def)


lemma catalog_confidence:
  assumes "entry \<in> set mockPredictions"
  shows "\<exists>c. field ''confidence'' entry = Some (JNumber c) \<and> 0 < c \<and> c < 1"
  using catalog_entries(2) [OF assms] by (auto split: option.splits json.splits)

lemma response_catalog:
  assumes "entry \<in> set mockPredictions" and "randomPrediction rt = Some entry"
  shows "response rt
           = JObject (spread (Some entry) @ [(''timestamp'', JString (toISOString (clock rt)))])"
    and "field ''condition'' (response rt) = field ''condition'' entry"
    and "field ''confidence'' (response rt) = field ''confidence'' entry"
    and "field ''severity'' (response rt) = field ''severity'' entry"
    and "field ''timestamp'' (response rt) = Some (JString (toISOString (clock rt)))"
  using assms by (auto simp add: mockPredictions_def response_def setProperty_def)

lemma catalog_shape:
  "map (field ''condition'') mockPredictions
     = [Some (JString ''Melanoma''), Some (JString ''Benign Nevus''),
        Some (JString ''Seborrheic Keratosis''), Some (JString ''Basal Cell Carcinoma'')]"
  "length (filter (\<lambda>e. field ''severity'' e = Some (JString ''low'')) mockPredictions) = 2"
  "length (filter (\<lambda>e. field ''severity'' e = Some (JString ''medium'')) mockPredictions) = 1"
  "length (filter (\<lambda>e. field ''severity'' e = Some (JString ''high'')) mockPredictions) = 1"
  by (simp_all add: mockPredictions_def)

text \<open>
  C1, as the code has it. A request that reaches the handler with a file, in a run in which
  none of the handler's calls throws, \<open>Math.random()\<close> returns a number from 0 up to but
  not including 1, and the clock reads a time value a \<open>Date\<close> can hold: the handler waits
  2000 ms, draws, reads the clock and answers with status 200. The body is one of the four
  catalog entries (Melanoma, Benign Nevus, Seborrheic Keratosis, Basal Cell Carcinoma; two
  of low severity, one medium, one high) with a timestamp added. Its confidence is strictly
  between 0 and 1, so within [0, 1]; its severity is low, medium or high; its timestamp is
  what \<open>toISOString\<close> writes for the clock's reading, an ISO-8601 string that reads back as
  that reading. The point in time it denotes is not before the time at which the request
  reached the handler if the wall clock was not set back in between, and only then.
\<close>

theorem classification_success:
  assumes "req_file req = Some f"
    and "\<forall>site. fault rt site = None"
    and "0 \<le> math_random rt" and "math_random rt < 1"
    and "validTime (clock rt)"
  shows "\<exists>entry body confidence stamp.
           handleClassification req rt = [Slept 2000, DrewRandom, ReadClock, Responded 200 body]
         \<and> entry \<in> set mockPredictions
         \<and> body = JObject (spread (Some entry) @ [(''timestamp'', JString stamp)])
         \<and> field ''condition'' body
             \<in> {Some (JString ''Melanoma''), Some (JString ''Benign Nevus''),
                Some (JString ''Seborrheic Keratosis''), Some (JString ''Basal Cell Carcinoma'')}
         \<and> field ''confidence'' body = Some (JNumber confidence)
         \<and> 0 < confidence \<and> confidence < 1
         \<and> field ''severity'' body
             \<in> {Some (JString ''low''), Some (JString ''medium''), Some (JString ''high'')}
         \<and> field ''timestamp'' body = Some (JString stamp)
         \<and> stamp = toISOString (clock rt)
         \<and> parseISO stamp = Some (clock rt)
         \<and> ((\<exists>t. parseISO stamp = Some t \<and> started rt \<le> t) \<longleftrightarrow> started rt \<le> clock rt)
         \<and> map (field ''condition'') mockPredictions
             = [Some (JString ''Melanoma''), Some (JString ''Benign Nevus''),
                Some (JString ''Seborrheic Keratosis''), Some (JString ''Basal Cell Carcinoma'')]
         \<and> length (filter (\<lambda>e. field ''severity'' e = Some (JString ''low'')) mockPredictions) = 2
         \<and> length (filter (\<lambda>e. field ''severity'' e = Some (JString ''medium'')) mockPredictions) = 1
         \<and> length (filter (\<lambda>e. field ''severity'' e = Some (JString ''high'')) mockPredictions) = 1"
proof -
  obtain entry where entry: "entry \<in> set mockPredictions" "randomPrediction rt = Some entry"
    using randomPrediction_catalog [OF assms(3, 4)] by blast
  obtain c where c: "field ''confidence'' entry = Some (JNumber c)" "0 < c" "c < 1"
    using catalog_confidence [OF entry(1)] by blast
  note r = response_catalog [OF entry]
  have run: "handleClassification req rt
               = [Slept 2000, DrewRandom, ReadClock, Responded 200 (response rt)]"
    by (simp add: handleClassification_def tryBlock_no_fault [OF assms(1, 2)])
  have reads: "parseISO (toISOString (clock rt)) = Some (clock rt)"
    using assms(5) by (rule parseISO_toISOString)
  have after: "(\<exists>t. parseISO (toISOString (clock rt)) = Some t \<and> started rt \<le> t)
                 \<longleftrightarrow> started rt \<le> clock rt"
    by (simp add: reads)
  show ?thesis
    apply (rule exI [of _ entry])
    apply (rule exI [of _ "response rt"])
    apply (rule exI [of _ c])
    apply (rule exI [of _ "toISOString (clock rt)"])
    using run entry(1) r c catalog_entries(1, 3) [OF entry(1)] reads after catalog_shape
    apply (simp only: simp_thms)
    done
qed

theorem classification_success_witness:
  "req_file \<lparr>req_file = Some \<lparr>file_originalname = ''mole.png'', file_mimetype = ''image/png'',
                                buffer = [137, 80, 78, 71], file_size = 4\<rparr>\<rparr>
     = Some \<lparr>file_originalname = ''mole.png'', file_mimetype = ''image/png'',
             buffer = [137, 80, 78, 71], file_size = 4\<rparr>
   \<and> (\<forall>site. fault \<lparr>started = 1793578000000, clock = 1793578002003, math_random = 1 / 2,
                       fault = (\<lambda>_. None)\<rparr> site = None)
   \<and> validTime (clock \<lparr>started = 1793578000000, clock = 1793578002003, math_random = 1 / 2,
                         fault = (\<lambda>_. None)\<rparr>)
   \<and> handleClassification
        \<lparr>req_file = Some \<lparr>file_originalname = ''mole.png'', file_mimetype = ''image/png'',
                            buffer = [137, 80, 78, 71], file_size = 4\<rparr>\<rparr>
        \<lparr>started = 1793578000000, clock = 1793578002003, math_random = 1 / 2,
         fault = (\<lambda>_. None)\<rparr>
      = [ Slept 2000, DrewRandom, ReadClock,
          Responded 200
            (JObject
              [ (''condition'', JString ''Seborrheic Keratosis''),
                (''confidence'', JNumber 0.78),
                (''severity'', JString ''low''),
                (''description'', JString
                  ''Common benign skin growth. No immediate treatment required unless cosmetically bothersome.''),
                (''timestamp'', JString ''2026-11-02T00:06:42.003Z'') ]) ]
   \<and> parseISO ''2026-11-02T00:06:42.003Z'' = Some 1793578002003
   \<and> started \<lparr>started = 1793578000000, clock = 1793578002003, math_random = 1 / 2,
                fault = (\<lambda>_. None)\<rparr>
       \<le> clock \<lparr>started = 1793578000000, clock = 1793578002003, math_random = 1 / 2,
                  fault = (\<lambda>_. None)\<rparr>
   \<and> (\<exists>t. parseISO ''2026-11-02T00:06:42.003Z'' = Some t \<and> 1793578000000 \<le> t)"
proof -
  define req where "req = \<lparr>req_file = Some \<lparr>file_originalname = ''mole.png'',
    file_mimetype = ''image/png'', buffer = [137, 80, 78, 71], file_size = 4\<rparr>\<rparr>"
  define rt where "rt = \<lparr>started = 1793578000000, clock = 1793578002003,
    math_random = 1 / 2, fault = (\<lambda>_ :: callsite. None :: thrown option)\<rparr>"
  have a: "req_file req = Some \<lparr>file_originalname = ''mole.png'', file_mimetype = ''image/png'',
             buffer = [137, 80, 78, 71], file_size = 4\<rparr>"
    by (simp add: req_def)
  have b: "\<forall>site. fault rt site = None" by (simp add: rt_def)
  have c: "0 \<le> math_random rt" "math_random rt < 1" by (simp_all add: rt_def)
  have n: "clock rt = 1793578002003" and s: "started rt = 1793578000000"
    by (simp_all add: rt_def)
  have d: "validTime (clock rt)" by (simp add: n validTime_def)
  have stamp: "toISOString 1793578002003 = ''2026-11-02T00:06:42.003Z''" by code_simp
  have draw: "randomPrediction rt = Some (mockPredictions ! 2)"
    by (simp add: randomPrediction_def elemAt_def mockPredictions_def rt_def)
  from classification_success [OF a b c d]
  obtain body where
    run: "handleClassification req rt = [Slept 2000, DrewRandom, ReadClock, Responded 200 body]"
    and reads: "parseISO (toISOString (clock rt)) = Some (clock rt)"
    and after: "(\<exists>t. parseISO (toISOString (clock rt)) = Some t \<and> started rt \<le> t)
                  \<longleftrightarrow> started rt \<le> clock rt"
    by blast
  have "handleClassification req rt
          = [Slept 2000, DrewRandom, ReadClock, Responded 200 (response rt)]"
    using a b by (simp add: handleClassification_def tryBlock_def calling_def finished_def)
  then have "body = response rt" using run by simp
  then have "body = JObject
              [ (''condition'', JString ''Seborrheic Keratosis''),
                (''confidence'', JNumber 0.78),
                (''severity'', JString ''low''),
                (''description'', JString
                  ''Common benign skin growth. No immediate treatment required unless cosmetically bothersome.''),
                (''timestamp'', JString ''2026-11-02T00:06:42.003Z'') ]"
    by (simp add: response_def draw n stamp mockPredictions_def setProperty_def)
  moreover have "parseISO ''2026-11-02T00:06:42.003Z'' = Some 1793578002003"
    using reads by (simp only: n stamp)
  moreover have "\<exists>t. parseISO ''2026-11-02T00:06:42.003Z'' = Some t \<and> 1793578000000 \<le> t"
    using after by (simp add: n s stamp)
  ultimately show ?thesis
    using run a b d by (simp add: req_def rt_def)
qed

text \<open>
  The claim as the specification words it, with the timestamp never before the start of
  the request, fails when the wall clock is set back while the handler waits: here the
  request reaches the handler at 00:06:40.000 and the clock reads 00:06:39.000 when the
  answer is built. Every other condition of the claim is met and the answer is the
  success answer, with a timestamp one second before the start of the request.
\<close>

theorem classification_timestamp_counterexample:
  "req_file \<lparr>req_file = Some \<lparr>file_originalname = ''mole.png'', file_mimetype = ''image/png'',
                                buffer = [137, 80, 78, 71], file_size = 4\<rparr>\<rparr>
     = Some \<lparr>file_originalname = ''mole.png'', file_mimetype = ''image/png'',
             buffer = [137, 80, 78, 71], file_size = 4\<rparr>
   \<and> (\<forall>site. fault \<lparr>started = 1793578000000, clock = 1793577999000, math_random = 1 / 2,
                       fault = (\<lambda>_. None)\<rparr> site = None)
   \<and> validTime (clock \<lparr>started = 1793578000000, clock = 1793577999000, math_random = 1 / 2,
                         fault = (\<lambda>_. None)\<rparr>)
   \<and> handleClassification
        \<lparr>req_file = Some \<lparr>file_originalname = ''mole.png'', file_mimetype = ''image/png'',
                            buffer = [137, 80, 78, 71], file_size = 4\<rparr>\<rparr>
        \<lparr>started = 1793578000000, clock = 1793577999000, math_random = 1 / 2,
         fault = (\<lambda>_. None)\<rparr>
      = [ Slept 2000, DrewRandom, ReadClock,
          Responded 200
            (JObject
              [ (''condition'', JString ''Seborrheic Keratosis''),
                (''confidence'', JNumber 0.78),
                (''severity'', JString ''low''),
                (''description'', JString
                  ''Common benign skin growth. No immediate treatment required unless cosmetically bothersome.''),
                (''timestamp'', JString ''2026-11-02T00:06:39.000Z'') ]) ]
   \<and> parseISO ''2026-11-02T00:06:39.000Z'' = Some 1793577999000
   \<and> 1793577999000
       < started \<lparr>started = 1793578000000, clock = 1793577999000, math_random = 1 / 2,
                  fault = (\<lambda>_. None)\<rparr>"
proof -
  have stamp: "toISOString 1793577999000 = ''2026-11-02T00:06:39.000Z''" by code_simp
  have reads: "parseISO ''2026-11-02T00:06:39.000Z'' = Some 1793577999000" by code_simp
  have draw:
    "randomPrediction \<lparr>started = 1793578000000, clock = 1793577999000, math_random = 1 / 2,
                        fault = (\<lambda>_. None)\<rparr> = Some (mockPredictions ! 2)"
    by (simp add: randomPrediction_def elemAt_def mockPredictions_def)
  have "response \<lparr>started = 1793578000000, clock = 1793577999000, math_random = 1 / 2,
                  fault = (\<lambda>_. None)\<rparr>
          = JObject
              [ (''condition'', JString ''Seborrheic Keratosis''),
                (''confidence'', JNumber 0.78),
                (''severity'', JString ''low''),
                (''description'', JString
                  ''Common benign skin growth. No immediate treatment required unless cosmetically bothersome.''),
                (''timestamp'', JString ''2026-11-02T00:06:39.000Z'') ]"
    by (simp add: response_def draw stamp mockPredictions_def setProperty_def)
  then show ?thesis
    using reads
    by (simp add: handleClassification_def tryBlock_def calling_def finished_def validTime_def)
qed

text \<open>
  C2. A request without a file is answered with status 400 and the body
  \<open>{ "error": "No image file provided" }\<close>, and nothing else happens: no delay, no draw
  from the catalog, no answer with status 200. (The answer is the handler's only call on
  that path; it is taken not to throw, since a throw there ends in the \<open>catch\<close> block.)
\<close>

theorem missing_file_bad_request:
  assumes "req_file req = None" and "fault rt BadRequestSend = None"
  shows "handleClassification req rt
           = [Responded 400 (JObject [(''error'', JString ''No image file provided'')])]
         \<and> (\<forall>n. Slept n \<notin> set (handleClassification req rt))
         \<and> DrewRandom \<notin> set (handleClassification req rt)
         \<and> (\<forall>body. Responded 200 body \<notin> set (handleClassification req rt))"
  using assms by (simp add: handleClassification_def tryBlock_def calling_None finished_def)

theorem missing_file_bad_request_witness:
  "req_file \<lparr>req_file = None\<rparr> = None
   \<and> fault \<lparr>started = 1793578000000, clock = 1793578002003, math_random = 1 / 2,
            fault = (\<lambda>_. None)\<rparr> BadRequestSend = None
   \<and> handleClassification \<lparr>req_file = None\<rparr>
        \<lparr>started = 1793578000000, clock = 1793578002003, math_random = 1 / 2, fault = (\<lambda>_. None)\<rparr>
      = [Responded 400 (JObject [(''error'', JString ''No image file provided'')])]"
proof -
  have a: "req_file \<lparr>req_file = None\<rparr> = None" by simp
  have b: "fault \<lparr>started = 1793578000000, clock = 1793578002003, math_random = 1 / 2,
                  fault = (\<lambda>_. None)\<rparr> BadRequestSend = None"
    by simp
  show ?thesis using a b missing_file_bad_request [OF a b] by simp
qed

text \<open>
  C3. A file whose declared MIME type does not begin with \<open>image/\<close> is rejected by the file
  filter with the error "Only image files are allowed", and the route ends there, before
  the handler runs; a file whose MIME type begins with \<open>image/\<close> passes the filter.
\<close>

theorem fileFilter_images_only:
  "(\<not> prefix ''image/'' (mimetype part) \<longrightarrow>
      fileFilter part = Inl (ErrorObj ''Only image files are allowed'')
      \<and> classifyRoute (Some part) rt
          = Rejected (FilterRejected (ErrorObj ''Only image files are allowed'')))
   \<and> (prefix ''image/'' (mimetype part) \<longrightarrow> fileFilter part = Inr True)"
  by (simp add: fileFilter_def classifyRoute_def uploadMiddleware_def)

theorem fileFilter_images_only_witness:
  "\<not> prefix ''image/''
       (mimetype \<lparr>originalname = ''report.pdf'', mimetype = ''application/pdf'',
                  content = [37, 80, 68, 70]\<rparr>)
   \<and> fileFilter \<lparr>originalname = ''report.pdf'', mimetype = ''application/pdf'',
                  content = [37, 80, 68, 70]\<rparr>
       = Inl (ErrorObj ''Only image files are allowed'')
   \<and> classifyRoute
        (Some \<lparr>originalname = ''report.pdf'', mimetype = ''application/pdf'',
               content = [37, 80, 68, 70]\<rparr>)
        \<lparr>started = 1793578000000, clock = 1793578002003, math_random = 1 / 2, fault = (\<lambda>_. None)\<rparr>
       = Rejected (FilterRejected (ErrorObj ''Only image files are allowed''))
   \<and> prefix ''image/''
       (mimetype \<lparr>originalname = ''mole.png'', mimetype = ''image/png'',
                  content = [137, 80, 78, 71]\<rparr>)
   \<and> fileFilter \<lparr>originalname = ''mole.png'', mimetype = ''image/png'',
                  content = [137, 80, 78, 71]\<rparr> = Inr True"
  using fileFilter_images_only
      [of "\<lparr>originalname = ''report.pdf'', mimetype = ''application/pdf'',
            content = [37, 80, 68, 70]\<rparr>"
          "\<lparr>started = 1793578000000, clock = 1793578002003, math_random = 1 / 2,
            fault = (\<lambda>_. None)\<rparr>"]
    fileFilter_images_only
      [of "\<lparr>originalname = ''mole.png'', mimetype = ''image/png'',
            content = [137, 80, 78, 71]\<rparr>"]
  by simp

text \<open>
  C4. Whatever is thrown inside the \<open>try\<close> block is caught: the handler logs it and answers
  with status 500 and the body \<open>{ "error": "Failed to process image classification",
  "details": ... }\<close>, where the details are the message of the error, or "Unknown error" when
  what was thrown is not an error object. No other answer was made before.
\<close>

theorem exception_server_error:
  assumes "snd (tryBlock req rt) = Some error"
  shows "\<exists>effects.
           handleClassification req rt
             = effects @
               [ ConsoleError ''Classification error:'' error,
                 Responded 500
                   (JObject
                     [ (''error'', JString ''Failed to process image classification''),
                       (''details'', JString
                          (case error of ErrorObj message \<Rightarrow> message
                           | NonError \<Rightarrow> ''Unknown error'')) ]) ]
           \<and> (\<forall>status body. Responded status body \<notin> set effects)"
proof (intro exI conjI allI)
  show "handleClassification req rt
          = fst (tryBlock req rt) @
            [ ConsoleError ''Classification error:'' error,
              Responded 500
                (JObject
                  [ (''error'', JString ''Failed to process image classification''),
                    (''details'', JString
                       (case error of ErrorObj message \<Rightarrow> message
                        | NonError \<Rightarrow> ''Unknown error'')) ]) ]"
    using assms by (cases "tryBlock req rt") (simp add: handleClassification_def catchBlock_def)
  show "Responded status body \<notin> set (fst (tryBlock req rt))" for status body
    using assms by (rule tryBlock_thrown_no_response)
qed

theorem exception_server_error_witness:
  "snd (tryBlock
          \<lparr>req_file = Some \<lparr>file_originalname = ''mole.png'', file_mimetype = ''image/png'',
                              buffer = [137, 80, 78, 71], file_size = 4\<rparr>\<rparr>
          \<lparr>started = 1793578000000, clock = 1793578002003, math_random = 1 / 2,
           fault = (\<lambda>site. if site = SuccessSend then Some (ErrorObj ''write after end'')
                           else None)\<rparr>)
     = Some (ErrorObj ''write after end'')
   \<and> (\<exists>effects.
         handleClassification
           \<lparr>req_file = Some \<lparr>file_originalname = ''mole.png'', file_mimetype = ''image/png'',
                               buffer = [137, 80, 78, 71], file_size = 4\<rparr>\<rparr>
           \<lparr>started = 1793578000000, clock = 1793578002003, math_random = 1 / 2,
            fault = (\<lambda>site. if site = SuccessSend then Some (ErrorObj ''write after end'')
                            else None)\<rparr>
           = effects @
             [ ConsoleError ''Classification error:'' (ErrorObj ''write after end''),
               Responded 500
                 (JObject
                   [ (''error'', JString ''Failed to process image classification''),
                     (''details'', JString ''write after end'') ]) ]
         \<and> (\<forall>status body. Responded status body \<notin> set effects))"
proof -
  have a: "snd (tryBlock
          \<lparr>req_file = Some \<lparr>file_originalname = ''mole.png'', file_mimetype = ''image/png'',
                              buffer = [137, 80, 78, 71], file_size = 4\<rparr>\<rparr>
          \<lparr>started = 1793578000000, clock = 1793578002003, math_random = 1 / 2,
           fault = (\<lambda>site. if site = SuccessSend then Some (ErrorObj ''write after end'')
                           else None)\<rparr>)
     = Some (ErrorObj ''write after end'')"
    by (simp add: tryBlock_def calling_def finished_def)
  show ?thesis using a exception_server_error [OF a] by simp
qed

text \<open>
  C6. The size bound is 10 MiB, and it is enforced before the handler: an image of exactly
  \<open>10 * 1024 * 1024\<close> bytes passes the upload middleware and reaches the handler with its
  bytes; one of \<open>10 * 1024 * 1024 + 1\<close> bytes or more is rejected with the size-limit error
  and the handler does not run.
\<close>

theorem upload_size_bound:
  assumes "prefix ''image/'' (mimetype part)"
  shows "(length (content part) = 10 * 1024 * 1024 \<longrightarrow>
            (\<exists>f. uploadMiddleware (Some part) = Inr \<lparr>req_file = Some f\<rparr>
                 \<and> buffer f = content part
                 \<and> classifyRoute (Some part) rt
                     = Handled (handleClassification \<lparr>req_file = Some f\<rparr> rt)))
         \<and> (10 * 1024 * 1024 + 1 \<le> length (content part) \<longrightarrow>
              uploadMiddleware (Some part) = Inl LimitFileSize
              \<and> classifyRoute (Some part) rt = Rejected LimitFileSize)"
  using assms
  by (simp add: uploadMiddleware_def classifyRoute_def fileFilter_def fileSize_def)

theorem upload_size_bound_witness:
  "prefix ''image/'' (mimetype \<lparr>originalname = ''mole.png'', mimetype = ''image/png'',
                                 content = replicate (10 * 1024 * 1024) 0\<rparr>)
   \<and> length (content \<lparr>originalname = ''mole.png'', mimetype = ''image/png'',
                        content = replicate (10 * 1024 * 1024) 0\<rparr>) = 10 * 1024 * 1024
   \<and> (\<exists>f. uploadMiddleware
              (Some \<lparr>originalname = ''mole.png'', mimetype = ''image/png'',
                     content = replicate (10 * 1024 * 1024) 0\<rparr>)
            = Inr \<lparr>req_file = Some f\<rparr>
          \<and> buffer f = replicate (10 * 1024 * 1024) 0)
   \<and> 10 * 1024 * 1024 + 1
       \<le> length (content \<lparr>originalname = ''mole.png'', mimetype = ''image/png'',
                           content = replicate (10 * 1024 * 1024 + 1) 0\<rparr>)
   \<and> classifyRoute
        (Some \<lparr>originalname = ''mole.png'', mimetype = ''image/png'',
               content = replicate (10 * 1024 * 1024 + 1) 0\<rparr>)
        \<lparr>started = 1793578000000, clock = 1793578002003, math_random = 1 / 2, fault = (\<lambda>_. None)\<rparr>
      = Rejected LimitFileSize"
proof -
  have a: "prefix ''image/'' (mimetype \<lparr>originalname = ''mole.png'', mimetype = ''image/png'',
                                 content = replicate (10 * 1024 * 1024) 0\<rparr>)"
    by simp
  have b: "prefix ''image/'' (mimetype \<lparr>originalname = ''mole.png'', mimetype = ''image/png'',
                                 content = replicate (10 * 1024 * 1024 + 1) 0\<rparr>)"
    by simp
  show ?thesis
    using upload_size_bound [OF a,
        of "\<lparr>started = 1793578000000, clock = 1793578002003, math_random = 1 / 2,
             fault = (\<lambda>_. None)\<rparr>"]
      upload_size_bound [OF b,
        of "\<lparr>started = 1793578000000, clock = 1793578002003, math_random = 1 / 2,
             fault = (\<lambda>_. None)\<rparr>"]
    by auto
qed

text \<open>
  C7. The answer does not depend on the uploaded image: with the same random draw, the same
  clock and the same faults, two requests that both carry a file get the same effects from
  the handler, whatever the two files are, so in particular when they differ in their bytes
  only.
\<close>

theorem result_ignores_image:
  assumes "req_file req1 = Some f1" and "req_file req2 = Some f2"
  shows "handleClassification req1 rt = handleClassification req2 rt"
  using assms by (simp add: handleClassification_def tryBlock_def)

theorem result_ignores_image_witness:
  "req_file \<lparr>req_file = Some \<lparr>file_originalname = ''mole.png'', file_mimetype = ''image/png'',
                                buffer = [137, 80, 78, 71], file_size = 4\<rparr>\<rparr>
     = Some \<lparr>file_originalname = ''mole.png'', file_mimetype = ''image/png'',
             buffer = [137, 80, 78, 71], file_size = 4\<rparr>
   \<and> req_file \<lparr>req_file = Some \<lparr>file_originalname = ''mole.png'', file_mimetype = ''image/png'',
                                  buffer = [0, 1, 2, 3], file_size = 4\<rparr>\<rparr>
     = Some \<lparr>file_originalname = ''mole.png'', file_mimetype = ''image/png'',
             buffer = [0, 1, 2, 3], file_size = 4\<rparr>
   \<and> handleClassification
        \<lparr>req_file = Some \<lparr>file_originalname = ''mole.png'', file_mimetype = ''image/png'',
                            buffer = [137, 80, 78, 71], file_size = 4\<rparr>\<rparr>
        \<lparr>started = 1793578000000, clock = 1793578002003, math_random = 1 / 2, fault = (\<lambda>_. None)\<rparr>
     = handleClassification
        \<lparr>req_file = Some \<lparr>file_originalname = ''mole.png'', file_mimetype = ''image/png'',
                            buffer = [0, 1, 2, 3], file_size = 4\<rparr>\<rparr>
        \<lparr>started = 1793578000000, clock = 1793578002003, math_random = 1 / 2, fault = (\<lambda>_. None)\<rparr>"
proof -
  have a: "req_file \<lparr>req_file = Some \<lparr>file_originalname = ''mole.png'', file_mimetype = ''image/png'',
                                buffer = [137, 80, 78, 71], file_size = 4\<rparr>\<rparr>
     = Some \<lparr>file_originalname = ''mole.png'', file_mimetype = ''image/png'',
             buffer = [137, 80, 78, 71], file_size = 4\<rparr>"
    by simp
  have b: "req_file \<lparr>req_file = Some \<lparr>file_originalname = ''mole.png'', file_mimetype = ''image/png'',
                                  buffer = [0, 1, 2, 3], file_size = 4\<rparr>\<rparr>
     = Some \<lparr>file_originalname = ''mole.png'', file_mimetype = ''image/png'',
             buffer = [0, 1, 2, 3], file_size = 4\<rparr>"
    by simp
  show ?thesis
    using a b result_ignores_image [OF a b,
        of "\<lparr>started = 1793578000000, clock = 1793578002003, math_random = 1 / 2,
             fault = (\<lambda>_. None)\<rparr>"]
    by simp
qed

section \<open>Properties of the client page\<close>

text \<open>
  C5. When the request fails, or the response's status is not ok, the page's prediction
  becomes the fallback result, whose condition is "Analysis Error", whose confidence is 0
  and whose severity is medium; when the response is ok, the prediction becomes the JSON
  payload of the response.
\<close>

theorem analyze_failure_fallback:
  assumes "selectedImage st = Some img"
  shows "(result = FetchFailed error \<or> (result = FetchResponse status body \<and> \<not> ok status) \<longrightarrow>
            prediction (fst (analyzeImage result st)) = fallback)
         \<and> (result = FetchResponse status (Inr payload) \<and> ok status \<longrightarrow>
            prediction (fst (analyzeImage result st)) = payload)
         \<and> field ''condition'' fallback = Some (JString ''Analysis Error'')
         \<and> field ''confidence'' fallback = Some (JNumber 0)
         \<and> field ''severity'' fallback = Some (JString ''medium'')"
  using assms by (auto simp add: analyzeImage_def analyzeCatch_def fallback_def)

theorem analyze_failure_fallback_witness:
  "selectedImage \<lparr>selectedImage = Some \<lparr>file_name = ''mole.png'', file_type = ''image/png'',
                                          file_bytes = [137, 80, 78, 71]\<rparr>,
                   imagePreview = Some ''data:image/png;base64,iVBORw=='', isAnalyzing = False,
                   prediction = JNull, isDragOver = False\<rparr>
     = Some \<lparr>file_name = ''mole.png'', file_type = ''image/png'', file_bytes = [137, 80, 78, 71]\<rparr>
   \<and> \<not> ok 500
   \<and> prediction (fst (analyzeImage
         (FetchResponse 500
            (Inr (JObject [(''error'', JString ''Failed to process image classification''),
                           (''details'', JString ''Unknown error'')])))
         \<lparr>selectedImage = Some \<lparr>file_name = ''mole.png'', file_type = ''image/png'',
                                  file_bytes = [137, 80, 78, 71]\<rparr>,
          imagePreview = Some ''data:image/png;base64,iVBORw=='', isAnalyzing = False,
          prediction = JNull, isDragOver = False\<rparr>)) = fallback
   \<and> ok 200
   \<and> prediction (fst (analyzeImage
         (FetchResponse 200 (Inr (JObject [(''condition'', JString ''Melanoma'')])))
         \<lparr>selectedImage = Some \<lparr>file_name = ''mole.png'', file_type = ''image/png'',
                                  file_bytes = [137, 80, 78, 71]\<rparr>,
          imagePreview = Some ''data:image/png;base64,iVBORw=='', isAnalyzing = False,
          prediction = JNull, isDragOver = False\<rparr>))
       = JObject [(''condition'', JString ''Melanoma'')]"
proof -
  have a: "selectedImage \<lparr>selectedImage = Some \<lparr>file_name = ''mole.png'', file_type = ''image/png'',
                                          file_bytes = [137, 80, 78, 71]\<rparr>,
                   imagePreview = Some ''data:image/png;base64,iVBORw=='', isAnalyzing = False,
                   prediction = JNull, isDragOver = False\<rparr>
     = Some \<lparr>file_name = ''mole.png'', file_type = ''image/png'', file_bytes = [137, 80, 78, 71]\<rparr>"
    by simp
  have b: "\<not> ok 500" "ok 200" by (simp_all add: ok_def)
  show ?thesis
    using a b
      analyze_failure_fallback [OF a,
        of "FetchResponse 500
            (Inr (JObject [(''error'', JString ''Failed to process image classification''),
                           (''details'', JString ''Unknown error'')]))"
           NonError 500
           "Inr (JObject [(''error'', JString ''Failed to process image classification''),
                           (''details'', JString ''Unknown error'')])"
           "JNull"]
      analyze_failure_fallback [OF a,
        of "FetchResponse 200 (Inr (JObject [(''condition'', JString ''Melanoma'')]))"
           NonError 200 "Inr (JObject [(''condition'', JString ''Melanoma'')])"
           "JObject [(''condition'', JString ''Melanoma'')]"]
    by simp
qed

text \<open>
  C8. After \<open>clearImage\<close>, from any state, the selected image and the preview are null and
  so is the prediction.
\<close>

theorem clearImage_resets:
  "selectedImage (clearImage st) = None
   \<and> imagePreview (clearImage st) = None
   \<and> prediction (clearImage st) = JNull"
  by (simp add: clearImage_def)

text \<open>
  C9. A drop whose first file has a type that does not begin with \<open>image/\<close> is ignored:
  the selected image, the preview and the prediction stay as they were and no file is read.
  The change handler of the file picker takes the first chosen file as the selected image
  whatever its type is, and \<open>analyzeImage\<close> then submits that file: the client rejects
  nothing, which leaves the rejection to the server's file filter.
\<close>

theorem drop_filters_picker_accepts:
  "(\<not> prefix ''image/'' (file_type file) \<longrightarrow>
      selectedImage (fst (handleDrop (file # others) st)) = selectedImage st
      \<and> imagePreview (fst (handleDrop (file # others) st)) = imagePreview st
      \<and> prediction (fst (handleDrop (file # others) st)) = prediction st
      \<and> snd (handleDrop (file # others) st) = [])
   \<and> selectedImage (fst (handleFileChange (Some (file # others)) st)) = Some file
   \<and> (\<exists>logged.
         snd (analyzeImage result (fst (handleFileChange (Some (file # others)) st)))
           = Fetch ''/api/classify'' ''POST'' file # logged)"
  by (simp add: handleDrop_def handleFileChange_def handleImageSelect_def analyzeImage_def
      Let_def split: prod.splits)

theorem drop_filters_picker_accepts_witness:
  "\<not> prefix ''image/'' (file_type \<lparr>file_name = ''report.pdf'', file_type = ''application/pdf'',
                                     file_bytes = [37, 80, 68, 70]\<rparr>)
   \<and> fst (handleDrop
        [\<lparr>file_name = ''report.pdf'', file_type = ''application/pdf'', file_bytes = [37, 80, 68, 70]\<rparr>]
        \<lparr>selectedImage = None, imagePreview = None, isAnalyzing = False, prediction = JNull,
         isDragOver = True\<rparr>)
      = \<lparr>selectedImage = None, imagePreview = None, isAnalyzing = False, prediction = JNull,
         isDragOver = False\<rparr>
   \<and> selectedImage (fst (handleFileChange
        (Some [\<lparr>file_name = ''report.pdf'', file_type = ''application/pdf'',
                file_bytes = [37, 80, 68, 70]\<rparr>])
        \<lparr>selectedImage = None, imagePreview = None, isAnalyzing = False, prediction = JNull,
         isDragOver = False\<rparr>))
      = Some \<lparr>file_name = ''report.pdf'', file_type = ''application/pdf'',
              file_bytes = [37, 80, 68, 70]\<rparr>"
  using drop_filters_picker_accepts
      [of "\<lparr>file_name = ''report.pdf'', file_type = ''application/pdf'',
            file_bytes = [37, 80, 68, 70]\<rparr>" "[]"
          "\<lparr>selectedImage = None, imagePreview = None, isAnalyzing = False, prediction = JNull,
            isDragOver = True\<rparr>"]
    drop_filters_picker_accepts
      [of "\<lparr>file_name = ''report.pdf'', file_type = ''application/pdf'',
            file_bytes = [37, 80, 68, 70]\<rparr>" "[]"
          "\<lparr>selectedImage = None, imagePreview = None, isAnalyzing = False, prediction = JNull,
            isDragOver = False\<rparr>"]
  by (simp add: handleDrop_def)

text \<open>
  C10. A run of \<open>analyzeImage\<close> with an image selected ends with \<open>isAnalyzing\<close> false,
  however the request ends; with no image selected it changes no state and sends nothing.
\<close>

theorem analyze_clears_flag:
  "(selectedImage st = Some img \<longrightarrow> isAnalyzing (fst (analyzeImage result st)) = False)
   \<and> (selectedImage st = None \<longrightarrow> analyzeImage result st = (st, []))"
  by (auto simp add: analyzeImage_def analyzeCatch_def Let_def
      split: fetch_result.splits sum.splits prod.splits)


theorem analyze_clears_flag_witness:
  "selectedImage \<lparr>selectedImage = Some \<lparr>file_name = ''mole.png'', file_type = ''image/png'',
                                          file_bytes = [137, 80, 78, 71]\<rparr>,
                   imagePreview = None, isAnalyzing = False, prediction = JNull,
                   isDragOver = False\<rparr>
     = Some \<lparr>file_name = ''mole.png'', file_type = ''image/png'', file_bytes = [137, 80, 78, 71]\<rparr>
   \<and> isAnalyzing (fst (analyzeImage (FetchFailed (ErrorObj ''Failed to fetch''))
         \<lparr>selectedImage = Some \<lparr>file_name = ''mole.png'', file_type = ''image/png'',
                                  file_bytes = [137, 80, 78, 71]\<rparr>,
          imagePreview = None, isAnalyzing = False, prediction = JNull,
          isDragOver = False\<rparr>)) = False
   \<and> selectedImage \<lparr>selectedImage = None, imagePreview = None, isAnalyzing = True,
                     prediction = JNull, isDragOver = False\<rparr> = None
   \<and> analyzeImage (FetchFailed (ErrorObj ''Failed to fetch''))
         \<lparr>selectedImage = None, imagePreview = None, isAnalyzing = True, prediction = JNull,
          isDragOver = False\<rparr>
       = (\<lparr>selectedImage = None, imagePreview = None, isAnalyzing = True, prediction = JNull,
           isDragOver = False\<rparr>, [])"
  using analyze_clears_flag
      [of "\<lparr>selectedImage = Some \<lparr>file_name = ''mole.png'', file_type = ''image/png'',
                                     file_bytes = [137, 80, 78, 71]\<rparr>,
            imagePreview = None, isAnalyzing = False, prediction = JNull, isDragOver = False\<rparr>"
          "\<lparr>file_name = ''mole.png'', file_type = ''image/png'', file_bytes = [137, 80, 78, 71]\<rparr>"
          "FetchFailed (ErrorObj ''Failed to fetch'')"]
    analyze_clears_flag
      [of "\<lparr>selectedImage = None, imagePreview = None, isAnalyzing = True, prediction = JNull,
            isDragOver = False\<rparr>" _ "FetchFailed (ErrorObj ''Failed to fetch'')"]
  by simp

end
